theory Spec2Isabelle
  imports Main "HOL-Library.Sublist"
begin

section \<open>Strings\<close>

text \<open>
  JavaScript strings are modelled as \<^typ>\<open>string\<close>.  The inner syntax has no literal for
  a backslash, so the Windows paths of the catalog are assembled from their components.
\<close>

definition backslash :: char where
  "backslash = CHR 0x5C"

fun win_path :: "string list \<Rightarrow> string" where
  "win_path [] = []"
| "win_path [p] = p"
| "win_path (p # q # ps) = p @ backslash # win_path (q # ps)"

text \<open>\<^verbatim>\<open>s.startsWith(p)\<close>: the first \<open>length p\<close> characters of \<open>s\<close> are \<open>p\<close>.\<close>

definition startsWith :: "string \<Rightarrow> string \<Rightarrow> bool" where
  "startsWith s p = (take (length p) s = p)"

text \<open>\<^verbatim>\<open>s.includes(t)\<close>: \<open>t\<close> occurs in \<open>s\<close> as a contiguous, case-sensitive substring.\<close>

fun includes_str :: "string \<Rightarrow> string \<Rightarrow> bool" where
  "includes_str [] t = (t = [])"
| "includes_str (c # s) t = (startsWith (c # s) t \<or> includes_str s t)"

text \<open>\<^verbatim>\<open>xs.join(sep)\<close>.\<close>

fun join :: "string \<Rightarrow> string list \<Rightarrow> string" where
  "join sep [] = []"
| "join sep [x] = x"
| "join sep (x # y # ys) = x @ sep @ join sep (y # ys)"

text \<open>
  \<^verbatim>\<open>s.trim()\<close> removes white space and line terminators at both ends; of those, the
  characters below are the ones a single \<^typ>\<open>char\<close> can hold.
\<close>

definition isWhiteSpace :: "char \<Rightarrow> bool" where
  "isWhiteSpace c = (c \<in> set [CHR 0x09, CHR 0x0A, CHR 0x0B, CHR 0x0C, CHR 0x0D, CHR 0x20, CHR 0xA0])"

definition trim :: "string \<Rightarrow> string" where
  "trim s = rev (dropWhile isWhiteSpace (rev (dropWhile isWhiteSpace s)))"

text \<open>The decimal digits of a number, as template interpolation \<^verbatim>\<open>${width}\<close> prints them.\<close>

definition digit :: "nat \<Rightarrow> char" where
  "digit d = ''0123456789'' ! d"

function toString :: "nat \<Rightarrow> string" where
  "toString n = (if n < 10 then [digit n] else toString (n div 10) @ [digit (n mod 10)])"
  by pat_completeness auto
termination
  by (relation "measure id") auto

declare toString.simps [simp del]

section \<open>The host: what the program reads from its environment\<close>

text \<open>
  \<open>platform\<close> is the result of \<^verbatim>\<open>os.platform()\<close>, \<open>existsSync\<close> that of
  \<^verbatim>\<open>fs.existsSync\<close>, and \<open>execSync\<close> that of \<^verbatim>\<open>child_process.execSync\<close>, which
  returns the output of the command or throws (non-zero exit status, missing command).
\<close>

datatype error = ExecError

record host =
  platform :: string
  existsSync :: "string \<Rightarrow> bool"
  execSync :: "string \<Rightarrow> error + string"

text \<open>What the program does to its environment, in order.\<close>

datatype event =
    ConsoleLog string
  | ConsoleError string
  | Exec string

fun isExec :: "event \<Rightarrow> bool" where
  "isExec (Exec c) = True"
| "isExec _ = False"

definition spawned :: "event list \<Rightarrow> event list" where
  "spawned evs = filter isExec evs"

section \<open>The catalog and the preference table\<close>

record browser =
  name :: string
  cmd :: string

text \<open>
  The two files of the repository have the same functions and differ in their tables only,
  so the functions below take the tables as an argument: \<open>index_js\<close> holds the tables of
  \<^verbatim>\<open>src/index.js\<close> and \<open>index_ts\<close> those of the TypeScript source
  (\<^verbatim>\<open>src/unnamed/part_000\<close>).  The object \<^verbatim>\<open>preferredBrowsers\<close> is an association list
  from its keys to its values.
\<close>

record tables =
  BROWSERS_windows :: "browser list"
  BROWSERS_darwin :: "browser list"
  BROWSERS_linux :: "browser list"
  preferredBrowsers :: "(string \<times> string list) list"

definition windows_catalog :: "browser list" where
  "windows_catalog =
    [ \<lparr>name = ''Chrome'',
        cmd = win_path [''C:'', ''Program Files'', ''Google'', ''Chrome'', ''Application'', ''chrome.exe'']\<rparr>,
      \<lparr>name = ''Firefox'',
        cmd = win_path [''C:'', ''Program Files'', ''Mozilla Firefox'', ''firefox.exe'']\<rparr>,
      \<lparr>name = ''Edge'',
        cmd = win_path [''C:'', ''Program Files (x86)'', ''Microsoft'', ''Edge'', ''Application'', ''msedge.exe'']\<rparr>,
      \<lparr>name = ''Brave'',
        cmd = win_path [''C:'', ''Program Files'', ''BraveSoftware'', ''Brave-Browser'', ''Application'', ''brave.exe'']\<rparr>,
      \<lparr>name = ''Vivaldi'',
        cmd = win_path [''C:'', ''Program Files'', ''Vivaldi'', ''Application'', ''vivaldi.exe'']\<rparr>,
      \<lparr>name = ''Opera'',
        cmd = win_path [''C:'', ''Program Files'', ''Opera'', ''launcher.exe'']\<rparr> ]"

definition darwin_catalog :: "browser list" where
  "darwin_catalog =
    [ \<lparr>name = ''Chrome'', cmd = ''/Applications/Google Chrome.app''\<rparr>,
      \<lparr>name = ''Safari'', cmd = ''/Applications/Safari.app''\<rparr>,
      \<lparr>name = ''Firefox'', cmd = ''/Applications/Firefox.app''\<rparr>,
      \<lparr>name = ''Brave'', cmd = ''/Applications/Brave Browser.app''\<rparr>,
      \<lparr>name = ''Edge'', cmd = ''/Applications/Microsoft Edge.app''\<rparr>,
      \<lparr>name = ''Vivaldi'', cmd = ''/Applications/Vivaldi.app''\<rparr>,
      \<lparr>name = ''Opera'', cmd = ''/Applications/Opera.app''\<rparr> ]"

definition index_js :: tables where
  "index_js =
    \<lparr> BROWSERS_windows = windows_catalog,
      BROWSERS_darwin = darwin_catalog,
      BROWSERS_linux =
        [ \<lparr>name = ''Chromium'', cmd = ''chromium''\<rparr>,
          \<lparr>name = ''Firefox'', cmd = ''firefox''\<rparr>,
          \<lparr>name = ''Chrome'', cmd = ''google-chrome''\<rparr>,
          \<lparr>name = ''Brave'', cmd = ''brave-browser''\<rparr>,
          \<lparr>name = ''Vivaldi'', cmd = ''vivaldi''\<rparr>,
          \<lparr>name = ''Opera'', cmd = ''opera''\<rparr> ],
      preferredBrowsers =
        [ (''win32'', [''Chrome'', ''Firefox'', ''Edge'', ''Brave'', ''Vivaldi'', ''Opera'']),
          (''darwin'', [''Chrome'', ''Safari'', ''Firefox'', ''Edge'', ''Brave'', ''Vivaldi'', ''Opera'']),
          (''linux'', [''Chromium'', ''Firefox'', ''Brave'', ''Chrome'', ''Vivaldi'', ''Opera'']) ] \<rparr>"

definition index_ts :: tables where
  "index_ts =
    \<lparr> BROWSERS_windows = windows_catalog,
      BROWSERS_darwin = darwin_catalog,
      BROWSERS_linux =
        [ \<lparr>name = ''Chromium'', cmd = ''chromium''\<rparr>,
          \<lparr>name = ''Chrome'', cmd = ''google-chrome''\<rparr>,
          \<lparr>name = ''Firefox'', cmd = ''firefox''\<rparr>,
          \<lparr>name = ''Brave'', cmd = ''brave-browser''\<rparr>,
          \<lparr>name = ''Vivaldi'', cmd = ''vivaldi''\<rparr>,
          \<lparr>name = ''Opera'', cmd = ''opera''\<rparr> ],
      preferredBrowsers =
        [ (''win32'', [''Chrome'', ''Firefox'', ''Edge'', ''Brave'', ''Vivaldi'', ''Opera'']),
          (''darwin'', [''Chrome'', ''Safari'', ''Firefox'', ''Edge'', ''Brave'', ''Vivaldi'', ''Opera'']),
          (''linux'', [''Chromium'', ''Chrome'', ''Firefox'', ''Brave'', ''Vivaldi'', ''Opera'']) ] \<rparr>"

section \<open>Detection\<close>

text \<open>
  \<^verbatim>\<open>which(command)\<close>: the trimmed output of \<^verbatim>\<open>which <command>\<close>, or \<^verbatim>\<open>null\<close> when the
  output is empty or \<^verbatim>\<open>execSync\<close> throws (the \<^verbatim>\<open>catch\<close> returns \<^verbatim>\<open>null\<close>).
\<close>

definition which :: "host \<Rightarrow> string \<Rightarrow> string option" where
  "which h command =
     (case execSync h (''which '' @ command) of
        Inl e \<Rightarrow> None
      | Inr out \<Rightarrow> (let output = trim out in if output = [] then None else Some output))"

text \<open>
  The loop \<^verbatim>\<open>for (let browser of catalog) if (probe(browser)) foundBrowsers.push(browser)\<close>,
  with \<open>foundBrowsers\<close> as the accumulator.
\<close>

fun pushFound :: "(browser \<Rightarrow> bool) \<Rightarrow> browser list \<Rightarrow> browser list \<Rightarrow> browser list" where
  "pushFound probe [] foundBrowsers = foundBrowsers"
| "pushFound probe (b # bs) foundBrowsers =
     pushFound probe bs (if probe b then foundBrowsers @ [b] else foundBrowsers)"

text \<open>
  \<^verbatim>\<open>detectBrowsers()\<close> returns what it logs and its result; \<open>None\<close> is the \<^verbatim>\<open>undefined\<close>
  of the bare \<^verbatim>\<open>return\<close>.  A string returned by \<^verbatim>\<open>which\<close> is never empty, so it is truthy.
\<close>

definition detectBrowsers :: "tables \<Rightarrow> host \<Rightarrow> event list \<times> browser list option" where
  "detectBrowsers t h =
     (let os = platform h in
      if os = ''win32'' then
        ([], Some (pushFound (\<lambda>b. existsSync h (cmd b)) (BROWSERS_windows t) []))
      else if os = ''darwin'' then
        ([], Some (pushFound (\<lambda>b. existsSync h (cmd b)) (BROWSERS_darwin t) []))
      else if os = ''linux'' then
        ([], Some (pushFound (\<lambda>b. which h (cmd b) \<noteq> None) (BROWSERS_linux t) []))
      else ([ConsoleLog ''Unsupported OS''], None))"

section \<open>Selection and launch\<close>

text \<open>Line 81 of \<^verbatim>\<open>src/index.js\<close>.\<close>

definition normalizeUrl :: "string \<Rightarrow> string" where
  "normalizeUrl url =
     (if startsWith url ''http'' then url
      else if startsWith url ''localhost'' then ''http://'' @ url
      else ''https://'' @ url)"

text \<open>
  \<^verbatim>\<open>preferredBrowsers[osName] || []\<close>.  The lookup is made only after detection returned
  a list, that is with one of the three keys of the object.
\<close>

definition browsersForOS :: "tables \<Rightarrow> string \<Rightarrow> string list" where
  "browsersForOS t osName = (case map_of (preferredBrowsers t) osName of Some ns \<Rightarrow> ns | None \<Rightarrow> [])"

text \<open>\<^verbatim>\<open>xs[0]\<close>, which is \<^verbatim>\<open>undefined\<close> on an empty array.\<close>

fun first :: "'a list \<Rightarrow> 'a option" where
  "first [] = None"
| "first (x # xs) = Some x"

text \<open>
  Lines 87 to 92: the preferred name is the first name of the preference list that some
  detected browser has; the \<^verbatim>\<open>if (preferredBrowser)\<close> test fails on \<^verbatim>\<open>undefined\<close> and on
  the empty string.
\<close>

definition selectBrowser :: "string list \<Rightarrow> browser list \<Rightarrow> browser option" where
  "selectBrowser prefs detectedBrowsers =
     (case find (\<lambda>n. list_ex (\<lambda>b. name b = n) detectedBrowsers) prefs of
        Some preferredBrowser \<Rightarrow>
          if preferredBrowser \<noteq> [] then find (\<lambda>b. name b = preferredBrowser) detectedBrowsers
          else first detectedBrowsers
      | None \<Rightarrow> first detectedBrowsers)"

definition width :: nat where
  "width = 960"

definition height :: nat where
  "height = 800"

text \<open>Lines 94 to 109: the command line for the selected browser.\<close>

definition browserCommand :: "string \<Rightarrow> browser \<Rightarrow> string \<Rightarrow> string" where
  \<open>browserCommand os browserToUse url =
     (let sizeInfo = ''--window-size='' @ toString width @ '','' @ toString height in
      if os \<noteq> ''darwin'' then
        if includes_str (cmd browserToUse) ''Firefox'' then
          let sizeInfo = ''--width='' @ toString width @ '' --height='' @ toString height in
          ''"'' @ cmd browserToUse @ ''" "'' @ url @ ''" '' @ sizeInfo
        else
          ''"'' @ cmd browserToUse @ ''" --app="'' @ url @ ''" '' @ sizeInfo
            @ '' --new-window --user-data-dir="/tmp/temp-profile"''
      else
        if includes_str (cmd browserToUse) ''Firefox'' then
          let sizeInfo = ''--width='' @ toString width @ '' --height='' @ toString height in
          ''open -na "'' @ cmd browserToUse @ ''" "'' @ url @ ''" '' @ sizeInfo
        else
          ''open -na "'' @ cmd browserToUse @ ''" --args --app="'' @ url
            @ ''" --new-window --user-data-dir="/tmp/temp-profile"'')\<close>

text \<open>Lines 114 to 124: the default-browser branch.\<close>

definition defaultBrowser :: "string \<Rightarrow> string \<Rightarrow> event list" where
  \<open>defaultBrowser os url =
     (if os = ''win32'' then [Exec (''start "" "'' @ url @ ''"'')]
      else if os = ''darwin'' then [Exec (''open "'' @ url @ ''"'')]
      else if os = ''linux'' then [Exec (''xdg-open "'' @ url @ ''"'')]
      else [ConsoleLog ''Unsupported OS for launching app!''])\<close>

text \<open>
  The browser that \<^verbatim>\<open>launchApp\<close> holds in \<open>browserToUse\<close>: \<open>None\<close> when detection
  returned \<^verbatim>\<open>undefined\<close> or nothing was detected.
\<close>

definition browserToUse :: "tables \<Rightarrow> host \<Rightarrow> browser option" where
  "browserToUse t h =
     (case snd (detectBrowsers t h) of
        None \<Rightarrow> None
      | Some detectedBrowsers \<Rightarrow> selectBrowser (browsersForOS t (platform h)) detectedBrowsers)"

text \<open>
  \<^verbatim>\<open>launchApp(url)\<close>.  The flag \<open>tryDefaultBrowser\<close> starts \<^verbatim>\<open>false\<close> and is set only
  inside \<^verbatim>\<open>if (detectedBrowsers)\<close>, when no browser was selected; an empty array is truthy.
\<close>

definition launchApp :: "tables \<Rightarrow> host \<Rightarrow> string \<Rightarrow> event list" where
  "launchApp t h url0 =
     (let os = platform h;
          (detectLog, detectedBrowsers) = detectBrowsers t h;
          log =
            [ ConsoleLog (''Detected OS: '' @ os),
              ConsoleLog (''Detected browsers: '' @
                (case detectedBrowsers of
                   Some bs \<Rightarrow> join '', '' (map name bs)
                 | None \<Rightarrow> ''None'')) ];
          url = normalizeUrl url0;
          (launch, tryDefaultBrowser) =
            (case detectedBrowsers of
               None \<Rightarrow> ([], False)
             | Some bs \<Rightarrow>
                 (case selectBrowser (browsersForOS t os) bs of
                    Some b \<Rightarrow> ([Exec (browserCommand os b url)], False)
                  | None \<Rightarrow> ([], True)))
      in detectLog @ log @ launch @ (if tryDefaultBrowser then defaultBrowser os url else []))"

text \<open>
  \<^verbatim>\<open>start()\<close> on the arguments after the script name.  \<^verbatim>\<open>process.exit(1)\<close> ends the
  process, so nothing after it runs; otherwise the process ends with code 0.
\<close>

record run =
  events :: "event list"
  exitCode :: nat

definition start :: "tables \<Rightarrow> host \<Rightarrow> string list \<Rightarrow> run" where
  "start t h args =
     (if length args = 0 then
        \<lparr>events = [ConsoleError ''No URL provided! Usage: npx oxr <url>''], exitCode = 1\<rparr>
      else \<lparr>events = launchApp t h (args ! 0), exitCode = 0\<rparr>)"

section \<open>Notions used to state the properties\<close>

text \<open>
  The position of the first occurrence of \<open>x\<close> in \<open>xs\<close> (the length of \<open>xs\<close> when there is
  none): a name is earlier in a preference list when its position is smaller.
\<close>

fun indexOf :: "'a list \<Rightarrow> 'a \<Rightarrow> nat" where
  "indexOf [] x = 0"
| "indexOf (y # ys) x = (if y = x then 0 else Suc (indexOf ys x))"

text \<open>Hosts on which the program is evaluated below.\<close>

definition bare_host :: "string \<Rightarrow> host" where
  "bare_host os = \<lparr>platform = os, existsSync = (\<lambda>p. False), execSync = (\<lambda>c. Inl ExecError)\<rparr>"

definition firefox_chrome_linux :: host where
  "firefox_chrome_linux =
     \<lparr> platform = ''linux'',
       existsSync = (\<lambda>p. False),
       execSync = (\<lambda>c.
         if c = ''which firefox'' then Inr (''/usr/bin/firefox'' @ [CHR 0x0A])
         else if c = ''which google-chrome'' then Inr (''/usr/bin/google-chrome'' @ [CHR 0x0A])
         else Inl ExecError) \<rparr>"

definition firefox_path :: string where
  "firefox_path = win_path [''C:'', ''Program Files'', ''Mozilla Firefox'', ''firefox.exe'']"

definition firefox_only_windows :: host where
  "firefox_only_windows =
     \<lparr> platform = ''win32'',
       existsSync = (\<lambda>p. p = firefox_path),
       execSync = (\<lambda>c. Inl ExecError) \<rparr>"

definition all_windows :: host where
  "all_windows =
     \<lparr>platform = ''win32'', existsSync = (\<lambda>p. True), execSync = (\<lambda>c. Inl ExecError)\<rparr>"

definition safari_only_darwin :: host where
  "safari_only_darwin =
     \<lparr> platform = ''darwin'',
       existsSync = (\<lambda>p. p = ''/Applications/Safari.app''),
       execSync = (\<lambda>c. Inl ExecError) \<rparr>"

text \<open>
  A Linux host on which \<^verbatim>\<open>which\<close> resolves exactly the commands of \<open>cmds\<close>, each to a
  path under \<^verbatim>\<open>/usr/bin\<close>.
\<close>

definition linux_with :: "string list \<Rightarrow> host" where
  "linux_with cmds =
     \<lparr> platform = ''linux'',
       existsSync = (\<lambda>p. False),
       execSync = (\<lambda>c.
         case find (\<lambda>n. c = ''which '' @ n) cmds of
           Some n \<Rightarrow> Inr (''/usr/bin/'' @ n @ [CHR 0x0A])
         | None \<Rightarrow> Inl ExecError) \<rparr>"


section \<open>Facts about the string functions\<close>

lemma startsWith_prefix: "startsWith s p = prefix p s"
  by (metis append_eq_conv_conj prefix_def startsWith_def take_is_prefix)

lemma includes_sublist: "includes_str s t = sublist t s"
  by (induction s) (simp_all add: sublist_Cons_right startsWith_prefix)

lemma toString_width: "toString width = ''960''"
  by (simp add: width_def toString.simps digit_def)

lemma toString_height: "toString height = ''800''"
  by (simp add: height_def toString.simps digit_def)

section \<open>Detection, selection and launch: basic facts\<close>

lemma pushFound_filter: "pushFound probe bs found = found @ filter probe bs"
  by (induction bs arbitrary: found) simp_all

lemma detectBrowsers_win32:
  "platform h = ''win32'' \<Longrightarrow>
   detectBrowsers t h = ([], Some (filter (\<lambda>b. existsSync h (cmd b)) (BROWSERS_windows t)))"
  by (simp add: detectBrowsers_def pushFound_filter)

lemma detectBrowsers_darwin:
  "platform h = ''darwin'' \<Longrightarrow>
   detectBrowsers t h = ([], Some (filter (\<lambda>b. existsSync h (cmd b)) (BROWSERS_darwin t)))"
  by (simp add: detectBrowsers_def pushFound_filter)

lemma detectBrowsers_linux:
  "platform h = ''linux'' \<Longrightarrow>
   detectBrowsers t h = ([], Some (filter (\<lambda>b. which h (cmd b) \<noteq> None) (BROWSERS_linux t)))"
  by (simp add: detectBrowsers_def pushFound_filter)

lemma detectBrowsers_unsupported:
  "platform h \<notin> {''win32'', ''darwin'', ''linux''} \<Longrightarrow>
   detectBrowsers t h = ([ConsoleLog ''Unsupported OS''], None)"
  by (simp add: detectBrowsers_def)

lemma which_throw: "execSync h (''which '' @ c) = Inl e \<Longrightarrow> which h c = None"
  by (simp add: which_def)

lemma which_Some_iff:
  "which h c \<noteq> None \<longleftrightarrow> (\<exists>out. execSync h (''which '' @ c) = Inr out \<and> trim out \<noteq> [])"
  by (auto simp: which_def Let_def split: sum.splits)

lemma launchApp_unsupported:
  "platform h \<notin> {''win32'', ''darwin'', ''linux''} \<Longrightarrow>
   launchApp t h url =
     [ConsoleLog ''Unsupported OS'', ConsoleLog (''Detected OS: '' @ platform h),
      ConsoleLog ''Detected browsers: None'']"
  by (simp add: launchApp_def detectBrowsers_unsupported)

lemma launchApp_selected:
  assumes "detectBrowsers t h = (lg, Some bs)"
    and "selectBrowser (browsersForOS t (platform h)) bs = Some b"
  shows "launchApp t h url =
     lg @ [ConsoleLog (''Detected OS: '' @ platform h),
           ConsoleLog (''Detected browsers: '' @ join '', '' (map name bs)),
           Exec (browserCommand (platform h) b (normalizeUrl url))]"
  using assms by (simp add: launchApp_def Let_def)

lemma launchApp_not_selected:
  assumes "detectBrowsers t h = (lg, Some bs)"
    and "selectBrowser (browsersForOS t (platform h)) bs = None"
  shows "launchApp t h url =
     lg @ [ConsoleLog (''Detected OS: '' @ platform h),
           ConsoleLog (''Detected browsers: '' @ join '', '' (map name bs))]
        @ defaultBrowser (platform h) (normalizeUrl url)"
  using assms by (simp add: launchApp_def Let_def)

lemma selectBrowser_Nil: "selectBrowser prefs [] = None"
  by (simp add: selectBrowser_def find_None_iff2 split: option.splits)

lemma find_earliest:
  "find P ps = Some p \<Longrightarrow> P p \<and> p \<in> set ps \<and> (\<forall>q. P q \<longrightarrow> indexOf ps p \<le> indexOf ps q)"
  by (induction ps) (auto split: if_splits)

lemma find_exists: "q \<in> set ps \<Longrightarrow> P q \<Longrightarrow> \<exists>p. find P ps = Some p"
  by (cases "find P ps") (auto simp: find_None_iff)

lemma indexOf_inj: "x \<in> set ps \<Longrightarrow> indexOf ps x = indexOf ps y \<Longrightarrow> x = y"
  by (induction ps) (auto split: if_splits)

lemma find_name: "find (\<lambda>b. name b = n) bs = Some s \<Longrightarrow> s \<in> set bs \<and> name s = n"
  by (induction bs) (auto split: if_splits)

lemma first_in_set: "first bs = Some s \<Longrightarrow> s \<in> set bs \<and> s = hd bs"
  by (cases bs) auto

lemma selectBrowser_in_set: "selectBrowser prefs bs = Some s \<Longrightarrow> s \<in> set bs"
  by (auto simp: selectBrowser_def split: option.splits if_splits dest: find_name first_in_set)

lemma selectBrowser_preferred:
  assumes "[] \<notin> set prefs" "a \<in> set bs" "name a \<in> set prefs"
  shows "\<exists>s. selectBrowser prefs bs = Some s \<and> s \<in> set bs \<and> name s \<in> set prefs \<and>
             (\<forall>c\<in>set bs. indexOf prefs (name s) \<le> indexOf prefs (name c))"
proof -
  let ?P = "\<lambda>n. list_ex (\<lambda>b. name b = n) bs"
  have "?P (name a)" using assms(2) by (auto simp: list_ex_iff)
  then obtain p where p: "find ?P prefs = Some p"
    using find_exists[of "name a" prefs ?P] assms(3) by blast
  from find_earliest[OF p] have pP: "?P p" and pin: "p \<in> set prefs"
    and least: "\<forall>q. ?P q \<longrightarrow> indexOf prefs p \<le> indexOf prefs q" by blast+
  from pin assms(1) have "p \<noteq> []" by auto
  from pP obtain b where "b \<in> set bs" "name b = p" by (auto simp: list_ex_iff)
  then obtain s where s: "find (\<lambda>b. name b = p) bs = Some s"
    using find_exists[of b bs "\<lambda>b. name b = p"] by blast
  have sel: "selectBrowser prefs bs = Some s"
    using p s \<open>p \<noteq> []\<close> by (simp add: selectBrowser_def)
  from find_name[OF s] have "s \<in> set bs" "name s = p" by simp_all
  moreover have "\<forall>c\<in>set bs. indexOf prefs p \<le> indexOf prefs (name c)"
    using least by (auto simp: list_ex_iff)
  ultimately show ?thesis using sel pin by auto
qed


lemma no_empty_pref: "[] \<notin> set (browsersForOS index_js os)"
  by (simp add: browsersForOS_def index_js_def)

lemma includes_mid: "includes_str (xs @ t @ ys) t"
  by (simp add: includes_sublist)

lemma detectBrowsers_Some:
  "snd (detectBrowsers t h) = Some bs \<Longrightarrow>
   detectBrowsers t h = ([], Some bs) \<and> platform h \<in> {''win32'', ''darwin'', ''linux''}"
  by (auto simp: detectBrowsers_def Let_def split: if_splits)

text \<open>
  With the tables of \<^verbatim>\<open>src/index.js\<close> every catalog name is in the preference list of its
  platform, so on a host the selected browser is always a preferred one.
\<close>

lemma detected_names_preferred:
  assumes "snd (detectBrowsers index_js h) = Some bs" and "b \<in> set bs"
  shows "name b \<in> set (browsersForOS index_js (platform h))"
proof -
  from detectBrowsers_Some[OF assms(1)]
  have d: "detectBrowsers index_js h = ([], Some bs)"
    and p: "platform h \<in> {''win32'', ''darwin'', ''linux''}" by simp_all
  from p consider "platform h = ''win32''" | "platform h = ''darwin''" | "platform h = ''linux''"
    by auto
  then show ?thesis
  proof cases
    case 1
    with d assms(2) have "b \<in> set windows_catalog"
      by (auto simp: detectBrowsers_win32 index_js_def)
    then show ?thesis
      by (auto simp: 1 windows_catalog_def browsersForOS_def index_js_def)
  next
    case 2
    with d assms(2) have "b \<in> set darwin_catalog"
      by (auto simp: detectBrowsers_darwin index_js_def)
    then show ?thesis
      by (auto simp: 2 darwin_catalog_def browsersForOS_def index_js_def)
  next
    case 3
    with d assms(2) have "b \<in> set (BROWSERS_linux index_js)"
      by (auto simp: detectBrowsers_linux)
    then show ?thesis
      by (auto simp: 3 browsersForOS_def index_js_def)
  qed
qed

lemma browserToUse_SomeD:
  assumes "browserToUse t h = Some b"
  obtains bs where "detectBrowsers t h = ([], Some bs)"
    and "selectBrowser (browsersForOS t (platform h)) bs = Some b" and "b \<in> set bs"
proof -
  from assms obtain bs where s: "snd (detectBrowsers t h) = Some bs"
    and sel: "selectBrowser (browsersForOS t (platform h)) bs = Some b"
    by (auto simp: browserToUse_def split: option.splits)
  from detectBrowsers_Some[OF s] selectBrowser_in_set[OF sel] sel that show thesis by blast
qed

lemma spawned_selected:
  assumes "browserToUse t h = Some b"
  shows "spawned (launchApp t h url) = [Exec (browserCommand (platform h) b (normalizeUrl url))]"
proof -
  from assms obtain bs where d: "detectBrowsers t h = ([], Some bs)"
    and sel: "selectBrowser (browsersForOS t (platform h)) bs = Some b"
    by (rule browserToUse_SomeD)
  from launchApp_selected[OF d sel, of url] show ?thesis by (simp add: spawned_def)
qed

lemma browserToUse_catalog:
  assumes "browserToUse t h = Some b"
  shows "(platform h = ''win32'' \<longrightarrow> b \<in> set (BROWSERS_windows t))
       \<and> (platform h = ''darwin'' \<longrightarrow> b \<in> set (BROWSERS_darwin t))
       \<and> (platform h = ''linux'' \<longrightarrow> b \<in> set (BROWSERS_linux t))"
proof -
  from assms obtain bs where d: "detectBrowsers t h = ([], Some bs)" and b: "b \<in> set bs"
    by (rule browserToUse_SomeD)
  then show ?thesis
    by (auto simp: detectBrowsers_win32 detectBrowsers_darwin detectBrowsers_linux)
qed

lemma sublist_separator:
  assumes "q \<notin> set t"
  shows "sublist t (xs @ q # ys) \<longleftrightarrow> sublist t xs \<or> sublist t ys"
proof
  assume "sublist t (xs @ q # ys)"
  then consider "sublist t xs" | "sublist t (q # ys)"
    | t1 t2 where "t = t1 @ t2" "suffix t1 xs" "prefix t2 (q # ys)"
    by (auto simp: sublist_append)
  then show "sublist t xs \<or> sublist t ys"
  proof cases
    case 1 then show ?thesis by simp
  next
    case 2
    then show ?thesis using assms
      by (cases t) (auto simp: sublist_Cons_right prefix_Cons)
  next
    case 3
    show ?thesis
    proof (cases t2)
      case Nil
      with 3 show ?thesis by auto
    next
      case (Cons x xs')
      with 3 assms show ?thesis by (auto simp: prefix_Cons)
    qed
  qed
next
  assume "sublist t xs \<or> sublist t ys"
  then show "sublist t (xs @ q # ys)"
    by (auto simp: sublist_append sublist_Cons_right)
qed

lemma includes_quoted:
  assumes "q \<notin> set t"
  shows "includes_str (xs @ q # u @ q # ys) t \<longleftrightarrow>
         includes_str xs t \<or> includes_str u t \<or> includes_str ys t"
  using assms by (simp add: includes_sublist sublist_separator)

lemma windows_firefox_test:
  "b \<in> set windows_catalog \<Longrightarrow> includes_str (cmd b) ''Firefox'' = (name b = ''Firefox'')"
  by (auto simp: windows_catalog_def backslash_def startsWith_def)

lemma firefox_path_no_app: \<open>\<not> includes_str (''"'' @ firefox_path @ ''" '') ''--app=''\<close>
  by (simp add: firefox_path_def backslash_def startsWith_def)

lemma windows_firefox_path:
  "b \<in> set windows_catalog \<Longrightarrow> name b = ''Firefox'' \<Longrightarrow> cmd b = firefox_path"
  by (auto simp: windows_catalog_def firefox_path_def)

text \<open>What the hosts defined above detect and select.\<close>

lemma firefox_only_windows_selected:
  "browserToUse index_js firefox_only_windows = Some \<lparr>name = ''Firefox'', cmd = firefox_path\<rparr>"
proof -
  have "snd (detectBrowsers index_js firefox_only_windows) = Some [\<lparr>name = ''Firefox'', cmd = firefox_path\<rparr>]"
    by (simp add: detectBrowsers_win32 firefox_only_windows_def index_js_def windows_catalog_def
          firefox_path_def backslash_def)
  then show ?thesis
    by (simp add: browserToUse_def)
      (simp add: firefox_only_windows_def browsersForOS_def index_js_def selectBrowser_def)
qed

lemma all_windows_selected:
  "browserToUse index_js all_windows = Some (hd windows_catalog)"
proof -
  have "snd (detectBrowsers index_js all_windows) = Some windows_catalog"
    by (simp add: detectBrowsers_win32 all_windows_def index_js_def)
  then show ?thesis
    by (simp add: browserToUse_def)
      (simp add: all_windows_def browsersForOS_def index_js_def selectBrowser_def windows_catalog_def)
qed

text \<open>No two entries of a catalog have the same name.\<close>

lemma catalog_names_distinct:
  "distinct (map name windows_catalog)"
  "distinct (map name darwin_catalog)"
  "distinct (map name (BROWSERS_linux index_js))"
  by (simp_all add: windows_catalog_def darwin_catalog_def index_js_def)

lemma distinct_map_eq:
  "distinct (map f xs) \<Longrightarrow> x \<in> set xs \<Longrightarrow> y \<in> set xs \<Longrightarrow> f x = f y \<Longrightarrow> x = y"
  by (auto simp: distinct_map dest: inj_onD)

lemma detected_name_inj:
  assumes "snd (detectBrowsers index_js h) = Some bs"
    and "x \<in> set bs" and "y \<in> set bs" and "name x = name y"
  shows "x = y"
proof -
  from detectBrowsers_Some[OF assms(1)]
  have d: "detectBrowsers index_js h = ([], Some bs)"
    and p: "platform h \<in> {''win32'', ''darwin'', ''linux''}" by simp_all
  from p consider "platform h = ''win32''" | "platform h = ''darwin''" | "platform h = ''linux''"
    by auto
  then show ?thesis
  proof cases
    case 1
    with d assms(2,3) have "x \<in> set windows_catalog" "y \<in> set windows_catalog"
      by (auto simp: detectBrowsers_win32 index_js_def)
    with assms(4) show ?thesis
      by (blast intro: distinct_map_eq[OF catalog_names_distinct(1)])
  next
    case 2
    with d assms(2,3) have "x \<in> set darwin_catalog" "y \<in> set darwin_catalog"
      by (auto simp: detectBrowsers_darwin index_js_def)
    with assms(4) show ?thesis
      by (blast intro: distinct_map_eq[OF catalog_names_distinct(2)])
  next
    case 3
    with d assms(2,3) have "x \<in> set (BROWSERS_linux index_js)" "y \<in> set (BROWSERS_linux index_js)"
      by (auto simp: detectBrowsers_linux)
    with assms(4) show ?thesis
      by (blast intro: distinct_map_eq[OF catalog_names_distinct(3)])
  qed
qed

text \<open>What the Linux hosts used below detect.\<close>

lemma linux_with_platform: "platform (linux_with cmds) = ''linux''"
  by (simp add: linux_with_def)

lemma chrome_brave_detected:
  "snd (detectBrowsers index_js (linux_with [''google-chrome'', ''brave-browser''])) =
     Some [\<lparr>name = ''Chrome'', cmd = ''google-chrome''\<rparr>, \<lparr>name = ''Brave'', cmd = ''brave-browser''\<rparr>]"
  by (simp add: detectBrowsers_linux linux_with_def which_def index_js_def trim_def isWhiteSpace_def)

lemma chromium_firefox_chrome_detected:
  "snd (detectBrowsers index_js (linux_with [''chromium'', ''firefox'', ''google-chrome''])) =
     Some [\<lparr>name = ''Chromium'', cmd = ''chromium''\<rparr>, \<lparr>name = ''Firefox'', cmd = ''firefox''\<rparr>,
           \<lparr>name = ''Chrome'', cmd = ''google-chrome''\<rparr>]"
  by (simp add: detectBrowsers_linux linux_with_def which_def index_js_def trim_def isWhiteSpace_def)

lemma linux_prefs:
  "browsersForOS index_js ''linux'' = [''Chromium'', ''Firefox'', ''Brave'', ''Chrome'', ''Vivaldi'', ''Opera'']"
  by (simp add: browsersForOS_def index_js_def)



section \<open>The command line interface\<close>

text \<open>
  C10.  Invoked with no positional argument, the program writes one message to the error
  stream, the message contains ``No URL provided'', the exit code is 1, and nothing else
  happens: no log line and no spawn.
\<close>

theorem start_without_arguments:
  "start index_js h [] =
     \<lparr>events = [ConsoleError ''No URL provided! Usage: npx oxr <url>''], exitCode = 1\<rparr>
   \<and> includes_str ''No URL provided! Usage: npx oxr <url>'' ''No URL provided''"
  by (simp add: start_def startsWith_def)

section \<open>URL normalization\<close>

text \<open>
  C6.  An input that starts with ``http'' is left unchanged; otherwise an input that
  starts with ``localhost'' gets ``http://'' in front; every other input gets ``https://''
  in front.  The normalized URL is the one \<open>launchApp\<close> passes on, here to the default
  launcher of a Linux host without any known browser.
\<close>

theorem normalizeUrl_prefix_test:
  \<open>(prefix ''http'' url \<longrightarrow> normalizeUrl url = url)
   \<and> (\<not> prefix ''http'' url \<and> prefix ''localhost'' url \<longrightarrow> normalizeUrl url = ''http://'' @ url)
   \<and> (\<not> prefix ''http'' url \<and> \<not> prefix ''localhost'' url \<longrightarrow> normalizeUrl url = ''https://'' @ url)
   \<and> spawned (launchApp index_js (bare_host ''linux'') url)
         = [Exec (''xdg-open "'' @ normalizeUrl url @ ''"'')]\<close>
proof -
  have d: "detectBrowsers index_js (bare_host ''linux'') = ([], Some [])"
    by (simp add: detectBrowsers_linux bare_host_def which_def index_js_def)
  from launchApp_not_selected[OF d selectBrowser_Nil, of url]
  have \<open>spawned (launchApp index_js (bare_host ''linux'') url)
         = [Exec (''xdg-open "'' @ normalizeUrl url @ ''"'')]\<close>
    by (simp add: spawned_def bare_host_def defaultBrowser_def)
  then show ?thesis
    by (simp add: normalizeUrl_def startsWith_prefix)
qed

text \<open>The examples of the specification, and the edge case ``httpfoo.com''.\<close>

theorem normalizeUrl_prefix_test_witness:
  "prefix ''http'' ''httpfoo.com'' \<and> normalizeUrl ''httpfoo.com'' = ''httpfoo.com''
   \<and> normalizeUrl ''http://foo'' = ''http://foo''
   \<and> normalizeUrl ''https://foo'' = ''https://foo''
   \<and> \<not> prefix ''http'' ''localhost:3000'' \<and> prefix ''localhost'' ''localhost:3000''
   \<and> normalizeUrl ''localhost:3000'' = ''http://localhost:3000''
   \<and> \<not> prefix ''http'' ''example.com'' \<and> \<not> prefix ''localhost'' ''example.com''
   \<and> normalizeUrl ''example.com'' = ''https://example.com''"
  using normalizeUrl_prefix_test [of "''httpfoo.com''"]
    normalizeUrl_prefix_test [of "''http://foo''"]
    normalizeUrl_prefix_test [of "''https://foo''"]
    normalizeUrl_prefix_test [of "''localhost:3000''"]
    normalizeUrl_prefix_test [of "''example.com''"]
  by simp

section \<open>The default-browser branch\<close>

text \<open>
  C1.  On a host whose platform is none of win32, darwin and linux, \<open>detectBrowsers\<close>
  returns \<^verbatim>\<open>undefined\<close>, the block that sets \<open>tryDefaultBrowser\<close> is skipped, and the
  default-browser branch is not entered: on FreeBSD the program logs ``Unsupported OS'' and
  the two detection lines, and the message ``Unsupported OS for launching app!'' of that
  branch is not among them.
\<close>

theorem unsupported_os_never_reaches_fallback:
  "launchApp index_js (bare_host ''freebsd'') ''example.com'' =
     [ConsoleLog ''Unsupported OS'', ConsoleLog ''Detected OS: freebsd'',
      ConsoleLog ''Detected browsers: None'']
   \<and> ConsoleLog ''Unsupported OS for launching app!''
         \<notin> set (launchApp index_js (bare_host ''freebsd'') ''example.com'')"
proof -
  have "platform (bare_host ''freebsd'') \<notin> {''win32'', ''darwin'', ''linux''}"
    by (simp add: bare_host_def)
  from launchApp_unsupported[OF this] show ?thesis
    by (simp add: bare_host_def)
qed

text \<open>
  C4.  On a supported platform where detection finds nothing, no browser is selected and
  the only spawn is the default launcher of the platform, on the normalized URL.
\<close>

theorem nothing_detected_default_browser:
  assumes "platform h \<in> {''win32'', ''darwin'', ''linux''}"
    and "snd (detectBrowsers index_js h) = Some []"
  shows \<open>browserToUse index_js h = None
    \<and> (platform h = ''win32'' \<longrightarrow> launchApp index_js h url =
           [ConsoleLog ''Detected OS: win32'', ConsoleLog ''Detected browsers: '',
            Exec (''start "" "'' @ normalizeUrl url @ ''"'')])
    \<and> (platform h = ''darwin'' \<longrightarrow> launchApp index_js h url =
           [ConsoleLog ''Detected OS: darwin'', ConsoleLog ''Detected browsers: '',
            Exec (''open "'' @ normalizeUrl url @ ''"'')])
    \<and> (platform h = ''linux'' \<longrightarrow> launchApp index_js h url =
           [ConsoleLog ''Detected OS: linux'', ConsoleLog ''Detected browsers: '',
            Exec (''xdg-open "'' @ normalizeUrl url @ ''"'')])\<close>
proof -
  have d: "detectBrowsers index_js h = ([], Some [])"
    using assms by (auto simp: detectBrowsers_def)
  note l = launchApp_not_selected[OF d selectBrowser_Nil, of url]
  have "browserToUse index_js h = None"
    using d by (simp add: browserToUse_def selectBrowser_Nil)
  then show ?thesis
    using l by (simp add: defaultBrowser_def)
qed

theorem nothing_detected_default_browser_witness:
  \<open>launchApp index_js (bare_host ''win32'') ''example.com'' =
     [ConsoleLog ''Detected OS: win32'', ConsoleLog ''Detected browsers: '',
      Exec ''start "" "https://example.com"'']
   \<and> launchApp index_js (bare_host ''darwin'') ''localhost:3000'' =
     [ConsoleLog ''Detected OS: darwin'', ConsoleLog ''Detected browsers: '',
      Exec ''open "http://localhost:3000"'']
   \<and> launchApp index_js (bare_host ''linux'') ''http://foo'' =
     [ConsoleLog ''Detected OS: linux'', ConsoleLog ''Detected browsers: '',
      Exec ''xdg-open "http://foo"'']\<close>
proof -
  have w: "snd (detectBrowsers index_js (bare_host ''win32'')) = Some []"
    by (simp add: detectBrowsers_win32 bare_host_def)
  have m: "snd (detectBrowsers index_js (bare_host ''darwin'')) = Some []"
    by (simp add: detectBrowsers_darwin bare_host_def)
  have x: "snd (detectBrowsers index_js (bare_host ''linux'')) = Some []"
    by (simp add: detectBrowsers_linux bare_host_def which_def index_js_def)
  show ?thesis
    using nothing_detected_default_browser [OF _ w, of "''example.com''"]
      nothing_detected_default_browser [OF _ m, of "''localhost:3000''"]
      nothing_detected_default_browser [OF _ x, of "''http://foo''"]
    by (simp add: bare_host_def normalizeUrl_def startsWith_def)
qed

section \<open>What detection returns\<close>

text \<open>
  C9.  On each supported platform \<open>detectBrowsers\<close> logs nothing and returns the catalog of
  that platform filtered by its probe: \<^verbatim>\<open>existsSync\<close> of the locator on win32 and darwin,
  a non-null \<^verbatim>\<open>which\<close> of the locator on linux.  A filter keeps the order of the catalog
  and adds nothing to it.  A \<^verbatim>\<open>which\<close> whose \<^verbatim>\<open>execSync\<close> throws is a \<^verbatim>\<open>null\<close>, so that
  browser is absent from the result; \<^verbatim>\<open>which\<close> is non-null exactly when the command
  returned an output that is not blank.  The result type of \<open>detectBrowsers\<close> has no error.
\<close>

theorem detectBrowsers_filters_catalog:
  "(platform h = ''win32'' \<longrightarrow>
      detectBrowsers index_js h =
        ([], Some (filter (\<lambda>b. existsSync h (cmd b)) (BROWSERS_windows index_js))))
   \<and> (platform h = ''darwin'' \<longrightarrow>
      detectBrowsers index_js h =
        ([], Some (filter (\<lambda>b. existsSync h (cmd b)) (BROWSERS_darwin index_js))))
   \<and> (platform h = ''linux'' \<longrightarrow>
      detectBrowsers index_js h =
        ([], Some (filter (\<lambda>b. which h (cmd b) \<noteq> None) (BROWSERS_linux index_js)))
      \<and> (\<forall>b e. execSync h (''which '' @ cmd b) = Inl e \<longrightarrow>
            b \<notin> set (the (snd (detectBrowsers index_js h)))))
   \<and> (\<forall>c. which h c \<noteq> None \<longleftrightarrow>
          (\<exists>out. execSync h (''which '' @ c) = Inr out \<and> trim out \<noteq> []))"
  using which_Some_iff [of h]
  by (simp add: detectBrowsers_win32 detectBrowsers_darwin detectBrowsers_linux which_throw)

theorem detectBrowsers_filters_catalog_witness:
  "detectBrowsers index_js firefox_only_windows = ([], Some [\<lparr>name = ''Firefox'', cmd = firefox_path\<rparr>])
   \<and> detectBrowsers index_js safari_only_darwin =
        ([], Some [\<lparr>name = ''Safari'', cmd = ''/Applications/Safari.app''\<rparr>])
   \<and> detectBrowsers index_js firefox_chrome_linux =
        ([], Some [\<lparr>name = ''Firefox'', cmd = ''firefox''\<rparr>, \<lparr>name = ''Chrome'', cmd = ''google-chrome''\<rparr>])
   \<and> execSync firefox_chrome_linux ''which chromium'' = Inl ExecError
   \<and> \<lparr>name = ''Chromium'', cmd = ''chromium''\<rparr>
        \<notin> set (the (snd (detectBrowsers index_js firefox_chrome_linux)))"
  using detectBrowsers_filters_catalog [of firefox_only_windows]
    detectBrowsers_filters_catalog [of safari_only_darwin]
    detectBrowsers_filters_catalog [of firefox_chrome_linux]
  by (simp add: firefox_only_windows_def safari_only_darwin_def firefox_chrome_linux_def
        index_js_def windows_catalog_def darwin_catalog_def firefox_path_def backslash_def
        which_def trim_def isWhiteSpace_def)

section \<open>Which browser is selected\<close>

text \<open>
  C5.  Let \<open>a\<close> and \<open>b\<close> be browsers detected on a host, both named in the preference list
  of its platform, the name of \<open>a\<close> earlier than that of \<open>b\<close>.  Then \<open>launchApp\<close> selects a
  browser and spawns its command; the selected browser is the detected one whose name is
  earliest in the preference list; it is never \<open>b\<close>, and it is \<open>a\<close> exactly when no
  detected browser has an earlier name than \<open>a\<close>.  The selection is the same for every
  order of the detected list.
\<close>

theorem preference_precedence:
  assumes "snd (detectBrowsers index_js h) = Some detected"
    and "a \<in> set detected" and "b \<in> set detected"
    and "name a \<in> set (browsersForOS index_js (platform h))"
    and "name b \<in> set (browsersForOS index_js (platform h))"
    and "indexOf (browsersForOS index_js (platform h)) (name a)
           < indexOf (browsersForOS index_js (platform h)) (name b)"
  shows "\<exists>s. browserToUse index_js h = Some s
      \<and> spawned (launchApp index_js h url) =
            [Exec (browserCommand (platform h) s (normalizeUrl url))]
      \<and> s \<in> set detected
      \<and> name s \<in> set (browsersForOS index_js (platform h))
      \<and> (\<forall>c\<in>set detected.
            indexOf (browsersForOS index_js (platform h)) (name s)
              \<le> indexOf (browsersForOS index_js (platform h)) (name c))
      \<and> s \<noteq> b
      \<and> (s = a \<longleftrightarrow>
           (\<forall>c\<in>set detected.
              indexOf (browsersForOS index_js (platform h)) (name a)
                \<le> indexOf (browsersForOS index_js (platform h)) (name c)))
      \<and> (\<forall>detected'. set detected' = set detected \<longrightarrow>
            selectBrowser (browsersForOS index_js (platform h)) detected' = Some s)"
proof -
  let ?prefs = "browsersForOS index_js (platform h)"
  from selectBrowser_preferred[OF no_empty_pref assms(2) assms(4)]
  obtain s where sel: "selectBrowser ?prefs detected = Some s"
    and sin: "s \<in> set detected" and spref: "name s \<in> set ?prefs"
    and least: "\<forall>c\<in>set detected. indexOf ?prefs (name s) \<le> indexOf ?prefs (name c)"
    by blast
  have use: "browserToUse index_js h = Some s"
    using sel by (simp add: browserToUse_def assms(1))
  note sp = spawned_selected[OF use, of url]
  have le_a: "indexOf ?prefs (name s) \<le> indexOf ?prefs (name a)"
    using least assms(2) by blast
  have nb: "s \<noteq> b"
    using le_a assms(6) by auto
  have min: "s = a \<longleftrightarrow> (\<forall>c\<in>set detected. indexOf ?prefs (name a) \<le> indexOf ?prefs (name c))"
  proof
    assume "s = a"
    with least show "\<forall>c\<in>set detected. indexOf ?prefs (name a) \<le> indexOf ?prefs (name c)"
      by simp
  next
    assume "\<forall>c\<in>set detected. indexOf ?prefs (name a) \<le> indexOf ?prefs (name c)"
    with sin have "indexOf ?prefs (name a) \<le> indexOf ?prefs (name s)" by blast
    with le_a have "indexOf ?prefs (name s) = indexOf ?prefs (name a)" by simp
    with spref have "name s = name a" by (rule indexOf_inj)
    with assms(1) sin assms(2) show "s = a" by (rule detected_name_inj)
  qed
  have perm: "selectBrowser ?prefs detected' = Some s"
    if eq: "set detected' = set detected" for detected'
  proof -
    from assms(2) eq have "a \<in> set detected'" by simp
    from selectBrowser_preferred[OF no_empty_pref this assms(4)]
    obtain s' where sel': "selectBrowser ?prefs detected' = Some s'"
      and sin': "s' \<in> set detected'" and spref': "name s' \<in> set ?prefs"
      and least': "\<forall>c\<in>set detected'. indexOf ?prefs (name s') \<le> indexOf ?prefs (name c)"
      by blast
    have "indexOf ?prefs (name s') \<le> indexOf ?prefs (name s)"
      using least' sin eq by blast
    moreover have "indexOf ?prefs (name s) \<le> indexOf ?prefs (name s')"
      using least sin' eq by blast
    ultimately have "indexOf ?prefs (name s') = indexOf ?prefs (name s)" by simp
    with spref' have "name s' = name s" by (rule indexOf_inj)
    moreover from sin' eq have "s' \<in> set detected" by simp
    ultimately have "s' = s" using assms(1) sin by (blast intro: detected_name_inj)
    with sel' show ?thesis by simp
  qed
  from use sp sin spref least nb min perm show ?thesis by blast
qed

text \<open>
  On a Linux host with Chrome and Brave, Chrome is detected first and Brave, earlier in the
  preference list, is selected.
\<close>

theorem preference_precedence_witness:
  \<open>snd (detectBrowsers index_js (linux_with [''google-chrome'', ''brave-browser''])) =
     Some [\<lparr>name = ''Chrome'', cmd = ''google-chrome''\<rparr>, \<lparr>name = ''Brave'', cmd = ''brave-browser''\<rparr>]
   \<and> indexOf (browsersForOS index_js ''linux'') ''Brave'' = 2
   \<and> indexOf (browsersForOS index_js ''linux'') ''Chrome'' = 3
   \<and> browserToUse index_js (linux_with [''google-chrome'', ''brave-browser'']) =
       Some \<lparr>name = ''Brave'', cmd = ''brave-browser''\<rparr>
   \<and> spawned (launchApp index_js (linux_with [''google-chrome'', ''brave-browser'']) ''example.com'') =
       [Exec ''"brave-browser" --app="https://example.com" --window-size=960,800 --new-window --user-data-dir="/tmp/temp-profile"'']\<close>
proof -
  let ?h = "linux_with [''google-chrome'', ''brave-browser'']"
  let ?a = "\<lparr>name = ''Brave'', cmd = ''brave-browser''\<rparr>"
  let ?b = "\<lparr>name = ''Chrome'', cmd = ''google-chrome''\<rparr>"
  have use: "browserToUse index_js ?h = Some ?a"
    by (simp add: browserToUse_def chrome_brave_detected linux_with_platform linux_prefs
          selectBrowser_def)
  show ?thesis
    using preference_precedence [OF chrome_brave_detected, of ?a ?b "''example.com''"]
    by (simp add: use chrome_brave_detected linux_with_platform linux_prefs browserCommand_def
          startsWith_def toString_width toString_height normalizeUrl_def)
qed

text \<open>
  The earlier browser of a pair is not selected when a third detected browser precedes
  both: on a Linux host with Chromium, Firefox and Chrome, the pair Firefox and Chrome is
  detected and preferred, Firefox earlier, and Chromium is selected.
\<close>

theorem earlier_of_a_pair_counterexample:
  \<open>snd (detectBrowsers index_js (linux_with [''chromium'', ''firefox'', ''google-chrome''])) =
     Some [\<lparr>name = ''Chromium'', cmd = ''chromium''\<rparr>, \<lparr>name = ''Firefox'', cmd = ''firefox''\<rparr>,
           \<lparr>name = ''Chrome'', cmd = ''google-chrome''\<rparr>]
   \<and> indexOf (browsersForOS index_js ''linux'') ''Firefox'' = 1
   \<and> indexOf (browsersForOS index_js ''linux'') ''Chrome'' = 3
   \<and> browserToUse index_js (linux_with [''chromium'', ''firefox'', ''google-chrome'']) =
       Some \<lparr>name = ''Chromium'', cmd = ''chromium''\<rparr>
   \<and> browserToUse index_js (linux_with [''chromium'', ''firefox'', ''google-chrome'']) \<noteq>
       Some \<lparr>name = ''Firefox'', cmd = ''firefox''\<rparr>
   \<and> spawned (launchApp index_js (linux_with [''chromium'', ''firefox'', ''google-chrome'']) ''example.com'') =
       [Exec ''"chromium" --app="https://example.com" --window-size=960,800 --new-window --user-data-dir="/tmp/temp-profile"'']\<close>
proof -
  let ?h = "linux_with [''chromium'', ''firefox'', ''google-chrome'']"
  have use: "browserToUse index_js ?h = Some \<lparr>name = ''Chromium'', cmd = ''chromium''\<rparr>"
    by (simp add: browserToUse_def chromium_firefox_chrome_detected linux_with_platform linux_prefs
          selectBrowser_def)
  show ?thesis
    using spawned_selected[OF use, of "''example.com''"]
    by (simp add: use chromium_firefox_chrome_detected linux_with_platform linux_prefs
          browserCommand_def startsWith_def toString_width toString_height normalizeUrl_def)
qed



section \<open>The command line of the selected browser\<close>

text \<open>
  C3.  On linux, when the selected browser is the one named Firefox, its locator is the
  lower-case \<^verbatim>\<open>firefox\<close>, the case-sensitive test for ``Firefox'' fails on it, and the one
  command spawned is the Chromium-style one, with \<^verbatim>\<open>--app="<url>"\<close>,
  \<^verbatim>\<open>--window-size=960,800\<close>, \<^verbatim>\<open>--new-window\<close> and \<^verbatim>\<open>--user-data-dir="/tmp/temp-profile"\<close>;
  it is not the Firefox-style command with \<^verbatim>\<open>--width\<close> and \<^verbatim>\<open>--height\<close>.
\<close>

theorem linux_firefox_gets_chromium_command:
  assumes "platform h = ''linux''"
    and "browserToUse index_js h = Some b"
    and "name b = ''Firefox''"
  shows \<open>cmd b = ''firefox'' \<and> \<not> includes_str (cmd b) ''Firefox''
    \<and> (\<exists>c. spawned (launchApp index_js h url) = [Exec c]
          \<and> c = ''"firefox" --app="'' @ normalizeUrl url
                @ ''" --window-size=960,800 --new-window --user-data-dir="/tmp/temp-profile"''
          \<and> includes_str c (''--app="'' @ normalizeUrl url @ ''"'')
          \<and> includes_str c ''--window-size=960,800''
          \<and> includes_str c ''--new-window''
          \<and> includes_str c ''--user-data-dir="/tmp/temp-profile"''
          \<and> c \<noteq> ''"firefox" "'' @ normalizeUrl url @ ''" --width=960 --height=800'')\<close>
proof -
  let ?u = "normalizeUrl url"
  let ?c = \<open>''"firefox" --app="'' @ ?u
                @ ''" --window-size=960,800 --new-window --user-data-dir="/tmp/temp-profile"''\<close>
  from browserToUse_catalog[OF assms(2)] assms(1)
  have "b \<in> set (BROWSERS_linux index_js)" by simp
  with assms(3) have b: "b = \<lparr>name = ''Firefox'', cmd = ''firefox''\<rparr>"
    by (auto simp: index_js_def)
  have nf: "\<not> includes_str (cmd b) ''Firefox''"
    by (simp add: b startsWith_def)
  have "browserCommand ''linux'' b ?u = ?c"
    using nf by (simp add: browserCommand_def b toString_width toString_height)
  with spawned_selected[OF assms(2), of url] assms(1)
  have sp: "spawned (launchApp index_js h url) = [Exec ?c]" by simp
  have i1: \<open>includes_str ?c (''--app="'' @ ?u @ ''"'')\<close>
  proof -
    have \<open>?c = ''"firefox" '' @ (''--app="'' @ ?u @ ''"'')
        @ '' --window-size=960,800 --new-window --user-data-dir="/tmp/temp-profile"''\<close> by simp
    then show ?thesis by (simp only: includes_mid)
  qed
  have i2: "includes_str ?c ''--window-size=960,800''"
  proof -
    have \<open>?c = (''"firefox" --app="'' @ ?u @ ''" '') @ ''--window-size=960,800''
        @ '' --new-window --user-data-dir="/tmp/temp-profile"''\<close> by simp
    then show ?thesis by (simp only: includes_mid)
  qed
  have i3: "includes_str ?c ''--new-window''"
  proof -
    have \<open>?c = (''"firefox" --app="'' @ ?u @ ''" --window-size=960,800 '') @ ''--new-window''
        @ '' --user-data-dir="/tmp/temp-profile"''\<close> by simp
    then show ?thesis by (simp only: includes_mid)
  qed
  have i4: \<open>includes_str ?c ''--user-data-dir="/tmp/temp-profile"''\<close>
  proof -
    have \<open>?c = (''"firefox" --app="'' @ ?u @ ''" --window-size=960,800 --new-window '')
       @ ''--user-data-dir="/tmp/temp-profile"'' @ []\<close> by simp
    then show ?thesis by (simp only: includes_mid)
  qed
  have ne: \<open>?c \<noteq> ''"firefox" "'' @ ?u @ ''" --width=960 --height=800''\<close> by simp
  from b nf sp i1 i2 i3 i4 ne show ?thesis by simp
qed

theorem linux_firefox_gets_chromium_command_witness:
  \<open>platform firefox_chrome_linux = ''linux''
   \<and> browserToUse index_js firefox_chrome_linux = Some \<lparr>name = ''Firefox'', cmd = ''firefox''\<rparr>
   \<and> spawned (launchApp index_js firefox_chrome_linux ''localhost:3000'') =
       [Exec ''"firefox" --app="http://localhost:3000" --window-size=960,800 --new-window --user-data-dir="/tmp/temp-profile"'']\<close>
proof -
  have p: "platform firefox_chrome_linux = ''linux''"
    by (simp add: firefox_chrome_linux_def)
  have d: "snd (detectBrowsers index_js firefox_chrome_linux) =
      Some [\<lparr>name = ''Firefox'', cmd = ''firefox''\<rparr>, \<lparr>name = ''Chrome'', cmd = ''google-chrome''\<rparr>]"
    by (simp add: detectBrowsers_linux firefox_chrome_linux_def which_def index_js_def trim_def
          isWhiteSpace_def)
  have s: "browserToUse index_js firefox_chrome_linux = Some \<lparr>name = ''Firefox'', cmd = ''firefox''\<rparr>"
    by (simp add: browserToUse_def d p) (simp add: browsersForOS_def index_js_def selectBrowser_def)
  show ?thesis
    using linux_firefox_gets_chromium_command [OF p s, of "''localhost:3000''"] p s
    by (simp add: normalizeUrl_def startsWith_def)
qed

text \<open>
  C8.  On win32, when the selected browser is named Firefox the one command spawned is
  \<^verbatim>\<open>"<locator>" "<url>" --width=960 --height=800\<close>; it contains
  \<^verbatim>\<open>--width=960 --height=800\<close>, and it contains the text \<^verbatim>\<open>--app=\<close> exactly when the
  normalized URL does.  When the selected browser has another name the command contains
  \<^verbatim>\<open>--app="<url>"\<close> and \<^verbatim>\<open>--user-data-dir="/tmp/temp-profile"\<close>.  The size 960 by 800 is a
  constant of the program.
\<close>

theorem windows_command_shape:
  assumes "platform h = ''win32''"
    and "browserToUse index_js h = Some b"
  shows \<open>(name b = ''Firefox'' \<longrightarrow>
       (\<exists>c. spawned (launchApp index_js h url) = [Exec c]
          \<and> c = ''"'' @ cmd b @ ''" "'' @ normalizeUrl url @ ''" --width=960 --height=800''
          \<and> includes_str c ''--width=960 --height=800''
          \<and> (includes_str c ''--app='' \<longleftrightarrow> includes_str (normalizeUrl url) ''--app='')))
    \<and> (name b \<noteq> ''Firefox'' \<longrightarrow>
       (\<exists>c. spawned (launchApp index_js h url) = [Exec c]
          \<and> c = ''"'' @ cmd b @ ''" --app="'' @ normalizeUrl url
                @ ''" --window-size=960,800 --new-window --user-data-dir="/tmp/temp-profile"''
          \<and> includes_str c (''--app="'' @ normalizeUrl url @ ''"'')
          \<and> includes_str c ''--user-data-dir="/tmp/temp-profile"''))\<close>
proof -
  let ?u = "normalizeUrl url"
  from browserToUse_catalog[OF assms(2)] assms(1)
  have cat: "b \<in> set windows_catalog" by (simp add: index_js_def)
  note sp = spawned_selected[OF assms(2), of url]
  show ?thesis
  proof (cases "name b = ''Firefox''")
    case True
    let ?c = \<open>''"'' @ cmd b @ ''" "'' @ ?u @ ''" --width=960 --height=800''\<close>
    have "includes_str (cmd b) ''Firefox''"
      using windows_firefox_test[OF cat] True by simp
    then have "browserCommand ''win32'' b ?u = ?c"
      by (simp add: browserCommand_def toString_width toString_height)
    with sp assms(1) have 1: "spawned (launchApp index_js h url) = [Exec ?c]" by simp
    have 2: "includes_str ?c ''--width=960 --height=800''"
    proof -
      have \<open>?c = (''"'' @ cmd b @ ''" "'' @ ?u @ ''" '') @ ''--width=960 --height=800'' @ []\<close>
        by simp
      then show ?thesis by (simp only: includes_mid)
    qed
    have 3: "includes_str ?c ''--app='' \<longleftrightarrow> includes_str ?u ''--app=''"
    proof -
      let ?xs = \<open>''"'' @ firefox_path @ ''" ''\<close>
      let ?ys = "'' --width=960 --height=800''"
      have a: "includes_str ?c ''--app='' = includes_str (?xs @ CHR 0x22 # ?u @ CHR 0x22 # ?ys) ''--app=''"
        using windows_firefox_path[OF cat True] by simp
      have b: "includes_str (?xs @ CHR 0x22 # ?u @ CHR 0x22 # ?ys) ''--app='' \<longleftrightarrow>
          includes_str ?xs ''--app='' \<or> includes_str ?u ''--app='' \<or> includes_str ?ys ''--app=''"
        by (rule includes_quoted) simp
      have c: "\<not> includes_str ?ys ''--app=''"
        by (simp add: startsWith_def)
      show ?thesis
        unfolding a b using c firefox_path_no_app by blast
    qed
    from True 1 2 3 show ?thesis by simp
  next
    case False
    let ?c = \<open>''"'' @ cmd b @ ''" --app="'' @ ?u
                @ ''" --window-size=960,800 --new-window --user-data-dir="/tmp/temp-profile"''\<close>
    have "\<not> includes_str (cmd b) ''Firefox''"
      using windows_firefox_test[OF cat] False by simp
    then have "browserCommand ''win32'' b ?u = ?c"
      by (simp add: browserCommand_def toString_width toString_height)
    with sp assms(1) have 1: "spawned (launchApp index_js h url) = [Exec ?c]" by simp
    have 2: \<open>includes_str ?c (''--app="'' @ ?u @ ''"'')\<close>
    proof -
      have \<open>?c = (''"'' @ cmd b @ ''" '') @ (''--app="'' @ ?u @ ''"'')
          @ '' --window-size=960,800 --new-window --user-data-dir="/tmp/temp-profile"''\<close> by simp
      then show ?thesis by (simp only: includes_mid)
    qed
    have 3: \<open>includes_str ?c ''--user-data-dir="/tmp/temp-profile"''\<close>
    proof -
      have \<open>?c = (''"'' @ cmd b @ ''" --app="'' @ ?u @ ''" --window-size=960,800 --new-window '')
          @ ''--user-data-dir="/tmp/temp-profile"'' @ []\<close> by simp
      then show ?thesis by (simp only: includes_mid)
    qed
    from False 1 2 3 show ?thesis by simp
  qed
qed

theorem windows_command_shape_witness:
  \<open>platform firefox_only_windows = ''win32''
   \<and> browserToUse index_js firefox_only_windows = Some \<lparr>name = ''Firefox'', cmd = firefox_path\<rparr>
   \<and> spawned (launchApp index_js firefox_only_windows ''example.com'') =
       [Exec (''"'' @ firefox_path @ ''" "https://example.com" --width=960 --height=800'')]
   \<and> platform all_windows = ''win32''
   \<and> map_option name (browserToUse index_js all_windows) = Some ''Chrome''
   \<and> spawned (launchApp index_js all_windows ''example.com'') =
       [Exec (''"'' @ win_path [''C:'', ''Program Files'', ''Google'', ''Chrome'', ''Application'', ''chrome.exe'']
          @ ''" --app="https://example.com" --window-size=960,800 --new-window --user-data-dir="/tmp/temp-profile"'')]\<close>
proof -
  have p: "platform firefox_only_windows = ''win32''"
    by (simp add: firefox_only_windows_def)
  have q: "platform all_windows = ''win32''"
    by (simp add: all_windows_def)
  show ?thesis
    using windows_command_shape [OF p firefox_only_windows_selected, of "''example.com''"]
      windows_command_shape [OF q all_windows_selected, of "''example.com''"]
    by (simp add: p q firefox_only_windows_selected all_windows_selected windows_catalog_def
          normalizeUrl_def startsWith_def)
qed

text \<open>
  The URL is pasted between double quotes without escaping, so a URL with a double quote
  in it ends the quoted argument: with Firefox selected on win32, the URL
  \<^verbatim>\<open>x" --app="y\<close> gives a command with the flag \<^verbatim>\<open>--app="y"\<close>.
\<close>

theorem windows_firefox_app_flag_counterexample:
  \<open>platform firefox_only_windows = ''win32''
   \<and> map_option name (browserToUse index_js firefox_only_windows) = Some ''Firefox''
   \<and> spawned (launchApp index_js firefox_only_windows ''x" --app="y'') =
       [Exec (''"'' @ firefox_path @ ''" "https://x" --app="y" --width=960 --height=800'')]
   \<and> includes_str (''"'' @ firefox_path @ ''" "https://x" --app="y" --width=960 --height=800'')
        ''--app=''\<close>
proof -
  have p: "platform firefox_only_windows = ''win32''"
    by (simp add: firefox_only_windows_def)
  have i: "includes_str firefox_path ''Firefox''"
    by (simp add: firefox_path_def backslash_def startsWith_def)
  have \<open>includes_str ((''"'' @ firefox_path @ ''" "https://x" '') @ ''--app='' @ ''"y" --width=960 --height=800'')
        ''--app=''\<close>
    by (rule includes_mid)
  then have \<open>includes_str (''"'' @ firefox_path @ ''" "https://x" --app="y" --width=960 --height=800'')
        ''--app=''\<close> by simp
  then show ?thesis
    using spawned_selected[OF firefox_only_windows_selected, of \<open>''x" --app="y''\<close>] i
    by (simp add: p firefox_only_windows_selected browserCommand_def toString_width toString_height
          normalizeUrl_def startsWith_def)
qed

section \<open>The compiled program and its source\<close>

text \<open>
  C2.  On a Linux host where \<^verbatim>\<open>firefox\<close> and \<^verbatim>\<open>google-chrome\<close> resolve and
  \<^verbatim>\<open>chromium\<close> does not, the compiled program selects Firefox and the source selects
  Chrome, and they spawn different commands: the Linux catalog and the Linux preference
  list of the two files list Firefox and Chrome in different orders.
\<close>

theorem compiled_and_source_differ_on_linux:
  \<open>map_option name (browserToUse index_js firefox_chrome_linux) = Some ''Firefox''
   \<and> map_option name (browserToUse index_ts firefox_chrome_linux) = Some ''Chrome''
   \<and> spawned (launchApp index_js firefox_chrome_linux ''example.com'') =
       [Exec ''"firefox" --app="https://example.com" --window-size=960,800 --new-window --user-data-dir="/tmp/temp-profile"'']
   \<and> spawned (launchApp index_ts firefox_chrome_linux ''example.com'') =
       [Exec ''"google-chrome" --app="https://example.com" --window-size=960,800 --new-window --user-data-dir="/tmp/temp-profile"'']\<close>
proof -
  have p: "platform firefox_chrome_linux = ''linux''"
    by (simp add: firefox_chrome_linux_def)
  have dj: "snd (detectBrowsers index_js firefox_chrome_linux) =
      Some [\<lparr>name = ''Firefox'', cmd = ''firefox''\<rparr>, \<lparr>name = ''Chrome'', cmd = ''google-chrome''\<rparr>]"
    by (simp add: detectBrowsers_linux firefox_chrome_linux_def which_def index_js_def trim_def
          isWhiteSpace_def)
  have dt: "snd (detectBrowsers index_ts firefox_chrome_linux) =
      Some [\<lparr>name = ''Chrome'', cmd = ''google-chrome''\<rparr>, \<lparr>name = ''Firefox'', cmd = ''firefox''\<rparr>]"
    by (simp add: detectBrowsers_linux firefox_chrome_linux_def which_def index_ts_def trim_def
          isWhiteSpace_def)
  have sj: "browserToUse index_js firefox_chrome_linux = Some \<lparr>name = ''Firefox'', cmd = ''firefox''\<rparr>"
    by (simp add: browserToUse_def dj p) (simp add: browsersForOS_def index_js_def selectBrowser_def)
  have st: "browserToUse index_ts firefox_chrome_linux = Some \<lparr>name = ''Chrome'', cmd = ''google-chrome''\<rparr>"
    by (simp add: browserToUse_def dt p) (simp add: browsersForOS_def index_ts_def selectBrowser_def)
  show ?thesis
    using spawned_selected[OF sj, of "''example.com''"] spawned_selected[OF st, of "''example.com''"]
    by (simp add: sj st p browserCommand_def toString_width toString_height normalizeUrl_def
          startsWith_def)
qed

text \<open>
  On every platform other than linux the two files behave alike, and on linux they select
  the same browser except when \<^verbatim>\<open>google-chrome\<close> resolves, \<^verbatim>\<open>chromium\<close> does not, and
  \<^verbatim>\<open>firefox\<close> or \<^verbatim>\<open>brave-browser\<close> resolves.
\<close>

lemma compiled_and_source_agree_off_linux:
  assumes "platform h \<noteq> ''linux''"
  shows "launchApp index_js h url = launchApp index_ts h url"
    and "browserToUse index_js h = browserToUse index_ts h"
proof -
  have d: "detectBrowsers index_js h = detectBrowsers index_ts h"
    using assms by (simp add: detectBrowsers_def Let_def index_js_def index_ts_def)
  have b: "browsersForOS index_js (platform h) = browsersForOS index_ts (platform h)"
    using assms by (simp add: browsersForOS_def index_js_def index_ts_def)
  show "launchApp index_js h url = launchApp index_ts h url"
    unfolding launchApp_def Let_def d b by (rule refl)
  show "browserToUse index_js h = browserToUse index_ts h"
    unfolding browserToUse_def d b by (rule refl)
qed

lemma compiled_and_source_on_linux:
  assumes "platform h = ''linux''"
  shows "browserToUse index_js h = browserToUse index_ts h \<longleftrightarrow>
     which h ''chromium'' \<noteq> None \<or> which h ''google-chrome'' = None
       \<or> (which h ''firefox'' = None \<and> which h ''brave-browser'' = None)"
proof -
  have j: "snd (detectBrowsers index_js h) =
      Some (filter (\<lambda>b. which h (cmd b) \<noteq> None) (BROWSERS_linux index_js))"
    by (simp add: detectBrowsers_linux[OF assms])
  have t: "snd (detectBrowsers index_ts h) =
      Some (filter (\<lambda>b. which h (cmd b) \<noteq> None) (BROWSERS_linux index_ts))"
    by (simp add: detectBrowsers_linux[OF assms])
  show ?thesis
    unfolding browserToUse_def j t assms
    by (cases "which h ''chromium''"; cases "which h ''google-chrome''";
        cases "which h ''firefox''"; cases "which h ''brave-browser''";
        cases "which h ''vivaldi''"; cases "which h ''opera''")
       (simp_all add: browsersForOS_def index_js_def index_ts_def selectBrowser_def)
qed

end
